theory Spec2Isabelle
  imports Main "HOL-Library.Sublist"
begin

section \<open>The conversation state store of \<^verbatim>\<open>src/store/index.ts\<close>\<close>

text \<open>
  The store is a zustand container: one state object, and actions that replace it through
  \<^verbatim>\<open>set\<close>. \<^verbatim>\<open>set(partial)\<close> merges the given fields into the current state,
  \<^verbatim>\<open>set(f)\<close> merges \<^verbatim>\<open>f(state)\<close>, and \<^verbatim>\<open>set(state => state)\<close> changes nothing.
  Every action below is a function from the state before to the state after.

  The type declarations of \<^verbatim>\<open>@/types\<close> are not part of the source file. The records
  below carry the fields that the source file reads and writes. String-literal unions
  (role, message type, conversation status) are the strings they are at run time.
\<close>

subsection \<open>Data\<close>

record ApiSettings =
  apiUrl :: string
  apiKey :: string
  backendType :: string
  n8nConnectionStatus :: string
  useDemoMode :: bool

text \<open>\<^verbatim>\<open>Partial<ApiSettings>\<close>: a field that is \<open>None\<close> is a key that is not given.\<close>

record ApiSettingsPartial =
  apiUrl_opt :: "string option"
  apiKey_opt :: "string option"
  backendType_opt :: "string option"
  n8nConnectionStatus_opt :: "string option"
  useDemoMode_opt :: "bool option"

text \<open>The avatar is an emoji; it is kept as its list of Unicode code points.\<close>

record Agent =
  agent_id :: string
  agent_name :: string
  agent_description :: string
  avatar :: "nat list"
  agent_color :: string

record Strategy =
  strategy_id :: string
  strategy_name :: string
  strategy_description :: string
  strategy_color :: string
  icon :: string

text \<open>\<^verbatim>\<open>createdAt\<close> is a \<^verbatim>\<open>Date\<close>, kept as its milliseconds since the epoch.\<close>

record Message =
  msg_id :: string
  content :: string
  role :: string
  agentId :: "string option"
  agentName :: "string option"
  msg_type :: "string option"
  createdAt :: nat

text \<open>The fields of a \<^verbatim>\<open>Conversation\<close> are never read by the store.\<close>

typedecl Conversation

text \<open>
  \<^verbatim>\<open>currentTurn\<close> is a JavaScript number that starts at 0 and is only ever reset to 0 or
  increased by 1, so it is a natural number.
\<close>

record StoreState =
  apiSettings :: ApiSettings
  agents :: "Agent list"
  selectedAgentIds :: "string list"
  strategies :: "Strategy list"
  selectedStrategy :: string
  conversations :: "Conversation list"
  currentConversation :: "string option"
  messages :: "Message list"
  isLeftSidebarOpen :: bool
  isRightSidebarOpen :: bool
  isProcessing :: bool
  conversationStatus :: string
  currentTurn :: nat

subsection \<open>JavaScript helpers\<close>

text \<open>\<^verbatim>\<open>a || b\<close> on a possibly undefined string: the empty string is falsy as well.\<close>

definition js_or :: "string option \<Rightarrow> string \<Rightarrow> string" where
  "js_or a b = (case a of None \<Rightarrow> b | Some v \<Rightarrow> if v = [] then b else v)"

text \<open>\<^verbatim>\<open>Array.prototype.includes\<close> on an array of strings.\<close>

primrec js_includes :: "'a list \<Rightarrow> 'a \<Rightarrow> bool" where
  "js_includes [] x = False"
| "js_includes (y # ys) x = (y = x \<or> js_includes ys x)"

text \<open>The decimal digits that a template literal prints for a non-negative integer.\<close>

definition digit_char :: "nat \<Rightarrow> char" where
  "digit_char d =
     (if d = 0 then CHR ''0'' else if d = 1 then CHR ''1'' else if d = 2 then CHR ''2''
      else if d = 3 then CHR ''3'' else if d = 4 then CHR ''4'' else if d = 5 then CHR ''5''
      else if d = 6 then CHR ''6'' else if d = 7 then CHR ''7'' else if d = 8 then CHR ''8''
      else CHR ''9'')"

function dec_string :: "nat \<Rightarrow> string" where
  "dec_string n = (if n < 10 then [digit_char n] else dec_string (n div 10) @ [digit_char (n mod 10)])"
  by pat_completeness auto
termination
  by (relation "measure (\<lambda>n. n)") auto

declare dec_string.simps [simp del]

subsection \<open>Initial state\<close>

text \<open>
  The two arguments are \<^verbatim>\<open>process.env.NEXT_PUBLIC_AGENT_API_URL\<close> and
  \<^verbatim>\<open>process.env.NEXT_PUBLIC_AGENT_API_KEY\<close>.
\<close>

definition initialApiSettings :: "string option \<Rightarrow> string option \<Rightarrow> ApiSettings" where
  "initialApiSettings envUrl envKey =
     \<lparr> apiUrl = js_or envUrl ''http://localhost:5678'',
       apiKey = js_or envKey '''',
       backendType = ''n8n'',
       n8nConnectionStatus = ''disconnected'',
       useDemoMode = False \<rparr>"

definition defaultAgents :: "Agent list" where
  "defaultAgents =
     [ \<lparr> agent_id = ''data-architect'', agent_name = ''Data Architect'',
         agent_description = ''Designs data infrastructure and systems'',
         avatar = [0x1F468, 0x200D, 0x1F4BB], agent_color = ''#4CAF50'' \<rparr>,
       \<lparr> agent_id = ''pipeline-engineer'', agent_name = ''Pipeline Engineer'',
         agent_description = ''Expert in building efficient data pipelines'',
         avatar = [0x1F527], agent_color = ''#2196F3'' \<rparr>,
       \<lparr> agent_id = ''data-analyst'', agent_name = ''Data Analyst'',
         agent_description = ''Analyzes and interprets complex data'',
         avatar = [0x1F4CA], agent_color = ''#FF9800'' \<rparr>,
       \<lparr> agent_id = ''data-scientist'', agent_name = ''Data Scientist'',
         agent_description = ''Applies statistical models and machine learning'',
         avatar = [0x1F9EA], agent_color = ''#9C27B0'' \<rparr>,
       \<lparr> agent_id = ''data-governance'', agent_name = ''Governance Specialist'',
         agent_description = ''Ensures data quality and compliance'',
         avatar = [0x1F4CB], agent_color = ''#F44336'' \<rparr>,
       \<lparr> agent_id = ''data-engineer'', agent_name = ''Data Engineer'',
         agent_description = ''Builds and maintains data infrastructure'',
         avatar = [0x1F4BB], agent_color = ''#607D8B'' \<rparr> ]"

definition defaultStrategies :: "Strategy list" where
  "defaultStrategies =
     [ \<lparr> strategy_id = ''sequential'', strategy_name = ''Sequential'',
         strategy_description = ''Agents respond in sequence, building on previous responses'',
         strategy_color = ''#2196F3'', icon = ''arrow-right'' \<rparr>,
       \<lparr> strategy_id = ''collaborative'', strategy_name = ''Collaborative'',
         strategy_description = ''Agents work together to generate a comprehensive solution'',
         strategy_color = ''#4CAF50'', icon = ''users'' \<rparr>,
       \<lparr> strategy_id = ''debate'', strategy_name = ''Debate'',
         strategy_description = ''Agents discuss different approaches to solve the problem'',
         strategy_color = ''#FF9800'', icon = ''message-square'' \<rparr> ]"

definition initialState :: "string option \<Rightarrow> string option \<Rightarrow> StoreState" where
  "initialState envUrl envKey =
     \<lparr> apiSettings = initialApiSettings envUrl envKey,
       agents = defaultAgents,
       selectedAgentIds = [],
       strategies = defaultStrategies,
       selectedStrategy = ''sequential'',
       conversations = [],
       currentConversation = None,
       messages = [],
       isLeftSidebarOpen = True,
       isRightSidebarOpen = True,
       isProcessing = False,
       conversationStatus = ''idle'',
       currentTurn = 0 \<rparr>"

subsection \<open>Synchronous actions\<close>

definition merge_settings :: "ApiSettings \<Rightarrow> ApiSettingsPartial \<Rightarrow> ApiSettings" where
  "merge_settings a p =
     \<lparr> apiUrl = (case apiUrl_opt p of None \<Rightarrow> apiUrl a | Some v \<Rightarrow> v),
       apiKey = (case apiKey_opt p of None \<Rightarrow> apiKey a | Some v \<Rightarrow> v),
       backendType = (case backendType_opt p of None \<Rightarrow> backendType a | Some v \<Rightarrow> v),
       n8nConnectionStatus =
         (case n8nConnectionStatus_opt p of None \<Rightarrow> n8nConnectionStatus a | Some v \<Rightarrow> v),
       useDemoMode = (case useDemoMode_opt p of None \<Rightarrow> useDemoMode a | Some v \<Rightarrow> v) \<rparr>"

definition updateApiSettings :: "ApiSettingsPartial \<Rightarrow> StoreState \<Rightarrow> StoreState" where
  "updateApiSettings settings s = s\<lparr>apiSettings := merge_settings (apiSettings s) settings\<rparr>"

definition selectAgent :: "string \<Rightarrow> StoreState \<Rightarrow> StoreState" where
  "selectAgent agentId' s =
     (if length (selectedAgentIds s) \<ge> 4 \<and> \<not> js_includes (selectedAgentIds s) agentId' then s
      else s\<lparr>selectedAgentIds :=
               (if js_includes (selectedAgentIds s) agentId' then selectedAgentIds s
                else selectedAgentIds s @ [agentId'])\<rparr>)"

definition unselectAgent :: "string \<Rightarrow> StoreState \<Rightarrow> StoreState" where
  "unselectAgent agentId' s =
     s\<lparr>selectedAgentIds := filter (\<lambda>i. i \<noteq> agentId') (selectedAgentIds s)\<rparr>"

definition setSelectedStrategy :: "string \<Rightarrow> StoreState \<Rightarrow> StoreState" where
  "setSelectedStrategy strategyId s = s\<lparr>selectedStrategy := strategyId\<rparr>"

definition addMessage :: "Message \<Rightarrow> StoreState \<Rightarrow> StoreState" where
  "addMessage message s = s\<lparr>messages := messages s @ [message]\<rparr>"

definition addMessages :: "Message list \<Rightarrow> StoreState \<Rightarrow> StoreState" where
  "addMessages ms s = s\<lparr>messages := messages s @ ms\<rparr>"

definition setCurrentConversation :: "string option \<Rightarrow> StoreState \<Rightarrow> StoreState" where
  "setCurrentConversation conversationId s = s\<lparr>currentConversation := conversationId\<rparr>"

definition toggleLeftSidebar :: "StoreState \<Rightarrow> StoreState" where
  "toggleLeftSidebar s = s\<lparr>isLeftSidebarOpen := \<not> isLeftSidebarOpen s\<rparr>"

definition toggleRightSidebar :: "StoreState \<Rightarrow> StoreState" where
  "toggleRightSidebar s = s\<lparr>isRightSidebarOpen := \<not> isRightSidebarOpen s\<rparr>"

definition setConversationStatus :: "string \<Rightarrow> StoreState \<Rightarrow> StoreState" where
  "setConversationStatus status s = s\<lparr>conversationStatus := status\<rparr>"

definition resetConversation :: "StoreState \<Rightarrow> StoreState" where
  "resetConversation s =
     s\<lparr>messages := [], conversationStatus := ''idle'', currentTurn := 0, isProcessing := False\<rparr>"

subsection \<open>Derived views\<close>

definition useSelectedAgents :: "StoreState \<Rightarrow> Agent list" where
  "useSelectedAgents s = filter (\<lambda>agent. js_includes (selectedAgentIds s) (agent_id agent)) (agents s)"

definition useSelectedStrategy :: "StoreState \<Rightarrow> Strategy option" where
  "useSelectedStrategy s = find (\<lambda>strategy. strategy_id strategy = selectedStrategy s) (strategies s)"

subsection \<open>Query submission\<close>

text \<open>
  \<^verbatim>\<open>submitQuery\<close> reads three things from outside the store: fresh ids from
  \<^verbatim>\<open>uuidv4()\<close>, the clock, and the answer of \<^verbatim>\<open>n8nService.submitQuery\<close>. They are
  arguments of the model. \<open>SubmitEnv\<close> holds what is read before the \<^verbatim>\<open>await\<close>, in the
  order of the calls; \<open>SettleEnv\<close> holds what is read after it.
\<close>

record SubmitEnv =
  uuid_1 :: string
  date_1 :: nat
  date_now :: nat
  date_2 :: nat

record SettleEnv =
  uuid_2 :: string
  date_3 :: nat

text \<open>
  Modelled from the spec: the result type of \<^verbatim>\<open>n8nService.submitQuery\<close>, which is declared
  outside the source file. The backend returns "either a success result containing an
  ordered list of new messages, or a result/exception carrying a human-readable error
  description"; the store reads \<^verbatim>\<open>response.success\<close>, \<^verbatim>\<open>response.messages\<close> and
  \<^verbatim>\<open>response.error\<close>. A rejection carries the thrown value, of which the store asks
  whether it is an \<^verbatim>\<open>Error\<close> and, if so, reads its \<^verbatim>\<open>message\<close>.
\<close>

record BackendResponse =
  success :: bool
  resp_messages :: "Message list"
  error :: "string option"

datatype Thrown = ErrorInstance string | NotAnError

datatype Outcome = Resolved BackendResponse | Rejected Thrown

text \<open>The arguments of the call to \<^verbatim>\<open>n8nService.submitQuery\<close>.\<close>

record BackendRequest =
  req_agentIds :: "string list"
  req_strategy :: string
  req_query :: string
  req_useDemoMode :: bool

text \<open>
  The writes that \<^verbatim>\<open>submitQuery\<close> makes to the store, one constructor for each kind of
  call in its body: \<^verbatim>\<open>addMessage(m)\<close>, \<^verbatim>\<open>addMessages(ms)\<close>,
  \<^verbatim>\<open>set({isProcessing, conversationStatus, currentTurn})\<close>, the removal of the messages
  with a given id, \<^verbatim>\<open>set({conversationStatus})\<close> and \<^verbatim>\<open>set({isProcessing})\<close>.
\<close>

datatype Write =
  W_addMessage Message
| W_addMessages "Message list"
| W_set_processing bool string nat
| W_remove_id string
| W_set_conversationStatus string
| W_set_isProcessing bool

fun apply_write :: "Write \<Rightarrow> StoreState \<Rightarrow> StoreState" where
  "apply_write (W_addMessage m) s = addMessage m s"
| "apply_write (W_addMessages ms) s = addMessages ms s"
| "apply_write (W_set_processing p st n) s =
     s\<lparr>isProcessing := p, conversationStatus := st, currentTurn := n\<rparr>"
| "apply_write (W_remove_id i) s = s\<lparr>messages := filter (\<lambda>msg. msg_id msg \<noteq> i) (messages s)\<rparr>"
| "apply_write (W_set_conversationStatus st) s = s\<lparr>conversationStatus := st\<rparr>"
| "apply_write (W_set_isProcessing p) s = s\<lparr>isProcessing := p\<rparr>"

definition apply_writes :: "Write list \<Rightarrow> StoreState \<Rightarrow> StoreState" where
  "apply_writes ws s = fold apply_write ws s"

text \<open>
  Where the invocation stands when it gives control back: it has returned, or it waits for
  the backend, holding the request it sent and the id of its thinking message.
\<close>

datatype Suspension = Returned | Awaiting BackendRequest string

definition noAgentsMessage :: "SubmitEnv \<Rightarrow> Message" where
  "noAgentsMessage env =
     \<lparr> msg_id = uuid_1 env,
       content = ''Please select at least one agent before submitting a query.'',
       role = ''system'', agentId = None, agentName = None,
       msg_type = Some ''error'', createdAt = date_1 env \<rparr>"

definition userMessage :: "string \<Rightarrow> SubmitEnv \<Rightarrow> Message" where
  "userMessage query env =
     \<lparr> msg_id = uuid_1 env, content = query, role = ''user'',
       agentId = None, agentName = None, msg_type = None, createdAt = date_1 env \<rparr>"

definition thinkingMessage :: "SubmitEnv \<Rightarrow> Message" where
  "thinkingMessage env =
     \<lparr> msg_id = ''thinking-'' @ dec_string (date_now env), content = ''Thinking...'',
       role = ''assistant'', agentId = Some ''coordinator'', agentName = Some ''Coordinator'',
       msg_type = Some ''thinking'', createdAt = date_2 env \<rparr>"

definition errorMessage :: "string \<Rightarrow> SettleEnv \<Rightarrow> Message" where
  "errorMessage text env =
     \<lparr> msg_id = uuid_2 env, content = text, role = ''system'',
       agentId = None, agentName = None, msg_type = Some ''error'', createdAt = date_3 env \<rparr>"

text \<open>What the invocation passes to \<^verbatim>\<open>n8nService.submitQuery\<close>.\<close>

definition backendRequest :: "string \<Rightarrow> StoreState \<Rightarrow> BackendRequest" where
  "backendRequest query s =
     \<lparr> req_agentIds = selectedAgentIds s, req_strategy = selectedStrategy s,
       req_query = query, req_useDemoMode = useDemoMode (apiSettings s) \<rparr>"

text \<open>The body of \<^verbatim>\<open>submitQuery\<close> up to the \<^verbatim>\<open>await\<close>.\<close>

definition submitQuery_begin :: "string \<Rightarrow> SubmitEnv \<Rightarrow> StoreState \<Rightarrow> Write list \<times> Suspension" where
  "submitQuery_begin query env s =
     (if length (selectedAgentIds s) = 0 then ([W_addMessage (noAgentsMessage env)], Returned)
      else
        ([ W_addMessage (userMessage query env),
           W_set_processing True
             (if length (messages s) > 0 then ''active'' else ''active'')
             (currentTurn s + 1),
           W_addMessage (thinkingMessage env) ],
         Awaiting (backendRequest query s) (msg_id (thinkingMessage env))))"

text \<open>
  The body of \<^verbatim>\<open>submitQuery\<close> from the \<^verbatim>\<open>await\<close> on: the rest of the \<^verbatim>\<open>try\<close> block
  when the call resolved, the \<^verbatim>\<open>catch\<close> block when it rejected, then \<^verbatim>\<open>finally\<close>.
\<close>

definition thrownText :: "Thrown \<Rightarrow> string" where
  "thrownText e = (case e of ErrorInstance m \<Rightarrow> m | NotAnError \<Rightarrow> ''Unknown error occurred'')"

definition submitQuery_resume :: "string \<Rightarrow> SettleEnv \<Rightarrow> Outcome \<Rightarrow> Write list" where
  "submitQuery_resume thinkingId env outcome =
     (case outcome of
        Resolved response \<Rightarrow>
          [W_remove_id thinkingId] @
          (if success response then [W_addMessages (resp_messages response)]
           else [ W_addMessage (errorMessage (js_or (error response) ''An unknown error occurred'') env),
                  W_set_conversationStatus ''error'' ])
      | Rejected e \<Rightarrow>
          [ W_remove_id thinkingId,
            W_addMessage (errorMessage (''Error: '' @ thrownText e) env),
            W_set_conversationStatus ''error'' ])
     @ [W_set_isProcessing False]"

text \<open>
  One whole invocation with nothing else running in between: the writes it makes, in
  order, and the state they lead to. \<open>backend\<close> is the backend client.
\<close>

definition submitQuery_writes ::
  "(BackendRequest \<Rightarrow> Outcome) \<Rightarrow> string \<Rightarrow> SubmitEnv \<Rightarrow> SettleEnv \<Rightarrow> StoreState \<Rightarrow> Write list" where
  "submitQuery_writes backend query env env' s =
     (case submitQuery_begin query env s of
        (ws, Returned) \<Rightarrow> ws
      | (ws, Awaiting request thinkingId) \<Rightarrow> ws @ submitQuery_resume thinkingId env' (backend request))"

definition submitQuery ::
  "(BackendRequest \<Rightarrow> Outcome) \<Rightarrow> string \<Rightarrow> SubmitEnv \<Rightarrow> SettleEnv \<Rightarrow> StoreState \<Rightarrow> StoreState" where
  "submitQuery backend query env env' s = apply_writes (submitQuery_writes backend query env env' s) s"

subsection \<open>Runs of the store\<close>

text \<open>
  A configuration is the store together with the invocations of \<^verbatim>\<open>submitQuery\<close> that
  wait for the backend, each known by the id of its thinking message. An action is a call
  of one of the store's operations, or the backend settling one of the waiting
  invocations; between two actions nothing else touches the store.
\<close>

record Config =
  store :: StoreState
  waiting :: "string list"

datatype Action =
  Call_updateApiSettings ApiSettingsPartial
| Call_selectAgent string
| Call_unselectAgent string
| Call_setSelectedStrategy string
| Call_addMessage Message
| Call_addMessages "Message list"
| Call_setCurrentConversation "string option"
| Call_toggleLeftSidebar
| Call_toggleRightSidebar
| Call_setConversationStatus string
| Call_resetConversation
| Call_submitQuery string SubmitEnv
| Backend_settles nat Outcome SettleEnv

fun step :: "Action \<Rightarrow> Config \<Rightarrow> Config" where
  "step (Call_updateApiSettings p) c = c\<lparr>store := updateApiSettings p (store c)\<rparr>"
| "step (Call_selectAgent i) c = c\<lparr>store := selectAgent i (store c)\<rparr>"
| "step (Call_unselectAgent i) c = c\<lparr>store := unselectAgent i (store c)\<rparr>"
| "step (Call_setSelectedStrategy i) c = c\<lparr>store := setSelectedStrategy i (store c)\<rparr>"
| "step (Call_addMessage m) c = c\<lparr>store := addMessage m (store c)\<rparr>"
| "step (Call_addMessages ms) c = c\<lparr>store := addMessages ms (store c)\<rparr>"
| "step (Call_setCurrentConversation i) c = c\<lparr>store := setCurrentConversation i (store c)\<rparr>"
| "step Call_toggleLeftSidebar c = c\<lparr>store := toggleLeftSidebar (store c)\<rparr>"
| "step Call_toggleRightSidebar c = c\<lparr>store := toggleRightSidebar (store c)\<rparr>"
| "step (Call_setConversationStatus st) c = c\<lparr>store := setConversationStatus st (store c)\<rparr>"
| "step Call_resetConversation c = c\<lparr>store := resetConversation (store c)\<rparr>"
| "step (Call_submitQuery query env) c =
     (case submitQuery_begin query env (store c) of
        (ws, Returned) \<Rightarrow> c\<lparr>store := apply_writes ws (store c)\<rparr>
      | (ws, Awaiting request thinkingId) \<Rightarrow>
          c\<lparr>store := apply_writes ws (store c), waiting := waiting c @ [thinkingId]\<rparr>)"
| "step (Backend_settles k outcome env) c =
     (if k < length (waiting c)
      then c\<lparr>store := apply_writes (submitQuery_resume (waiting c ! k) env outcome) (store c),
             waiting := take k (waiting c) @ drop (Suc k) (waiting c)\<rparr>
      else c)"

definition run :: "Action list \<Rightarrow> Config \<Rightarrow> Config" where
  "run acts c = fold step acts c"

definition initialConfig :: "string option \<Rightarrow> string option \<Rightarrow> Config" where
  "initialConfig envUrl envKey = \<lparr> store = initialState envUrl envKey, waiting = [] \<rparr>"

text \<open>The ids of the two catalogs, and the actions that name only ids of the catalogs.\<close>

definition agentIds :: "StoreState \<Rightarrow> string set" where
  "agentIds s = set (map agent_id (agents s))"

definition strategyIds :: "StoreState \<Rightarrow> string set" where
  "strategyIds s = set (map strategy_id (strategies s))"

definition selection_in_catalog :: "StoreState \<Rightarrow> bool" where
  "selection_in_catalog s \<longleftrightarrow>
     set (selectedAgentIds s) \<subseteq> agentIds s \<and> selectedStrategy s \<in> strategyIds s"

fun names_catalog_ids :: "Action \<Rightarrow> bool" where
  "names_catalog_ids (Call_selectAgent i) = js_includes (map agent_id defaultAgents) i"
| "names_catalog_ids (Call_setSelectedStrategy i) = js_includes (map strategy_id defaultStrategies) i"
| "names_catalog_ids _ = True"

text \<open>An outcome of the backend call that is a failure: flagged unsuccessful, or thrown.\<close>

fun failed :: "Outcome \<Rightarrow> bool" where
  "failed (Resolved response) = (\<not> success response)"
| "failed (Rejected e) = True"

text \<open>
  Two invariants of the runs: the catalogs stay the default ones with the selection inside
  them, and the selection holds at most four ids, none of them twice.
\<close>

definition catalog_inv :: "StoreState \<Rightarrow> bool" where
  "catalog_inv s \<longleftrightarrow> agents s = defaultAgents \<and> strategies s = defaultStrategies
     \<and> selection_in_catalog s"

definition sel_ok :: "StoreState \<Rightarrow> bool" where
  "sel_ok s \<longleftrightarrow> length (selectedAgentIds s) \<le> 4 \<and> distinct (selectedAgentIds s)"

subsection \<open>Example inputs\<close>

text \<open>
  Concrete states, clock readings, ids and backends, on which the theorems below are
  instantiated.
\<close>

definition exampleState :: StoreState where
  "exampleState = selectAgent ''data-architect'' (selectAgent ''data-scientist'' (initialState None None))"

definition fullState :: StoreState where
  "fullState = selectAgent ''data-analyst'' (selectAgent ''pipeline-engineer'' exampleState)"

definition exampleSubmitEnv :: SubmitEnv where
  "exampleSubmitEnv =
     \<lparr> uuid_1 = ''9b2f6c1e-0d4a-4c3b-8f1e-2a7d5e6b9c10'', date_1 = 1700000000000,
       date_now = 1700000000001, date_2 = 1700000000001 \<rparr>"

definition exampleSettleEnv :: SettleEnv where
  "exampleSettleEnv = \<lparr> uuid_2 = ''1c8e4f7a-5b2d-4e9f-a3c6-7d0b1e2f3a45'', date_3 = 1700000002500 \<rparr>"

definition exampleReplies :: "Message list" where
  "exampleReplies =
     [ \<lparr> msg_id = ''r-1'', content = ''Use a star schema.'', role = ''assistant'',
         agentId = Some ''data-architect'', agentName = Some ''Data Architect'',
         msg_type = None, createdAt = 1700000002000 \<rparr>,
       \<lparr> msg_id = ''r-2'', content = ''Fit a baseline model first.'', role = ''assistant'',
         agentId = Some ''data-scientist'', agentName = Some ''Data Scientist'',
         msg_type = None, createdAt = 1700000002100 \<rparr> ]"

definition replyingBackend :: "BackendRequest \<Rightarrow> Outcome" where
  "replyingBackend request = Resolved \<lparr> success = True, resp_messages = exampleReplies, error = None \<rparr>"

definition refusingBackend :: "BackendRequest \<Rightarrow> Outcome" where
  "refusingBackend request =
     Resolved \<lparr> success = False, resp_messages = [], error = Some ''workflow is not active'' \<rparr>"

definition emptyErrorBackend :: "BackendRequest \<Rightarrow> Outcome" where
  "emptyErrorBackend request = Resolved \<lparr> success = False, resp_messages = [], error = Some '''' \<rparr>"

definition timeoutBackend :: "BackendRequest \<Rightarrow> Outcome" where
  "timeoutBackend request = Rejected (ErrorInstance ''timeout'')"

definition exampleRun :: "Action list" where
  "exampleRun =
     [ Call_selectAgent ''data-scientist'', Call_setSelectedStrategy ''debate'',
       Call_submitQuery ''hello'' exampleSubmitEnv, Call_selectAgent ''data-architect'',
       Backend_settles 0 (Rejected (ErrorInstance ''timeout'')) exampleSettleEnv,
       Call_unselectAgent ''data-scientist'', Call_resetConversation ]"

section \<open>Properties\<close>

subsection \<open>Helper facts\<close>

lemma js_includes_set: "js_includes xs x \<longleftrightarrow> x \<in> set xs"
  by (induction xs) auto

lemma filter_neq_removeAll: "filter (\<lambda>y. y \<noteq> x) xs = removeAll x xs"
  by (induction xs) auto

lemma subseq_removeAll: "subseq (removeAll x xs) xs"
  by (simp add: removeAll_filter_not_eq)

lemmas example_defs = exampleState_def fullState_def exampleSubmitEnv_def exampleSettleEnv_def
  exampleReplies_def replyingBackend_def refusingBackend_def emptyErrorBackend_def timeoutBackend_def
  initialState_def selectAgent_def

lemma exampleState_selected: "selectedAgentIds exampleState = [''data-scientist'', ''data-architect'']"
  by (simp add: example_defs)

lemma fullState_selected:
  "selectedAgentIds fullState =
     [''data-scientist'', ''data-architect'', ''pipeline-engineer'', ''data-analyst'']"
  by (simp add: example_defs)

subsection \<open>Selecting and unselecting agents\<close>

text \<open>
  Claim C5. \<^verbatim>\<open>selectAgent(id)\<close> has three cases. When four ids are selected and the
  given id is not among them, the whole state is unchanged. When the id is already
  selected, the selection is unchanged and no second entry appears. Otherwise the id is
  put at the end of the selection and the entries before it keep their order.

  The guard of the code is \<^verbatim>\<open>length >= 4\<close>; a selection never holds more than four ids
  (lemma \<open>reachable_selection_bounded\<close> below), so on every selection state the first case
  is the one with exactly four ids and the last case is the one with fewer than four.
\<close>

theorem selectAgent_cases:
  "(4 \<le> length (selectedAgentIds s) \<and> i \<notin> set (selectedAgentIds s) \<longrightarrow> selectAgent i s = s)
   \<and> (i \<in> set (selectedAgentIds s) \<longrightarrow>
        selectedAgentIds (selectAgent i s) = selectedAgentIds s \<and> selectAgent i s = s)
   \<and> (length (selectedAgentIds s) < 4 \<and> i \<notin> set (selectedAgentIds s) \<longrightarrow>
        selectAgent i s = s\<lparr>selectedAgentIds := selectedAgentIds s @ [i]\<rparr>)
   \<and> (distinct (selectedAgentIds s) \<longrightarrow> distinct (selectedAgentIds (selectAgent i s)))"
  by (simp add: selectAgent_def js_includes_set)

text \<open>
  The three cases on concrete states: a fifth agent, an agent selected already, and a
  third agent.
\<close>

theorem selectAgent_cases_witness:
  "length (selectedAgentIds fullState) = 4
   \<and> selectAgent ''data-engineer'' fullState = fullState
   \<and> selectedAgentIds (selectAgent ''data-scientist'' exampleState)
       = [''data-scientist'', ''data-architect'']
   \<and> selectedAgentIds (selectAgent ''data-analyst'' exampleState)
       = [''data-scientist'', ''data-architect'', ''data-analyst'']"
  using selectAgent_cases[of fullState "''data-engineer''"]
    selectAgent_cases[of exampleState "''data-scientist''"]
    selectAgent_cases[of exampleState "''data-analyst''"]
  by (simp add: fullState_selected exampleState_selected)

text \<open>
  Claim C9. \<^verbatim>\<open>unselectAgent(id)\<close> takes the id out of the selection and keeps the other
  ids in their order; when the id is not selected the state is unchanged.
\<close>

theorem unselectAgent_removes:
  "unselectAgent i s = s\<lparr>selectedAgentIds := removeAll i (selectedAgentIds s)\<rparr>
   \<and> i \<notin> set (selectedAgentIds (unselectAgent i s))
   \<and> subseq (selectedAgentIds (unselectAgent i s)) (selectedAgentIds s)
   \<and> (i \<notin> set (selectedAgentIds s) \<longrightarrow> unselectAgent i s = s)"
  by (simp add: unselectAgent_def filter_neq_removeAll subseq_removeAll)

text \<open>Unselecting an id that is not selected, and one that is.\<close>

theorem unselectAgent_removes_witness:
  "''data-engineer'' \<notin> set (selectedAgentIds exampleState)
   \<and> unselectAgent ''data-engineer'' exampleState = exampleState
   \<and> selectedAgentIds (unselectAgent ''data-scientist'' fullState)
       = [''data-architect'', ''pipeline-engineer'', ''data-analyst'']"
  using unselectAgent_removes[of "''data-engineer''" exampleState]
    unselectAgent_removes[of "''data-scientist''" fullState]
  by (simp add: fullState_selected exampleState_selected)

text \<open>
  Claim C8. For every catalog and every selection, the selected-agents view is the list of
  the catalog entries whose id is selected, in the order of the catalog: it is a
  subsequence of the catalog, and it does not depend on the order of the selection.
\<close>

theorem useSelectedAgents_catalog_order:
  "useSelectedAgents s = filter (\<lambda>a. agent_id a \<in> set (selectedAgentIds s)) (agents s)
   \<and> set (useSelectedAgents s) = {a \<in> set (agents s). agent_id a \<in> set (selectedAgentIds s)}
   \<and> subseq (useSelectedAgents s) (agents s)
   \<and> (\<forall>ids. set ids = set (selectedAgentIds s) \<longrightarrow>
         useSelectedAgents (s\<lparr>selectedAgentIds := ids\<rparr>) = useSelectedAgents s)"
  by (simp add: useSelectedAgents_def js_includes_set)

text \<open>
  The data scientist was selected before the data architect; the view lists the
  architect first, as the catalog does.
\<close>

theorem useSelectedAgents_catalog_order_witness:
  "set [''data-architect'', ''data-scientist''] = set (selectedAgentIds exampleState)
   \<and> map agent_id (useSelectedAgents exampleState) = [''data-architect'', ''data-scientist'']
   \<and> useSelectedAgents (exampleState\<lparr>selectedAgentIds := [''data-architect'', ''data-scientist'']\<rparr>)
       = useSelectedAgents exampleState"
proof -
  have h: "set [''data-architect'', ''data-scientist''] = set (selectedAgentIds exampleState)"
    by (auto simp: exampleState_selected)
  have a: "agents exampleState = defaultAgents"
    by (simp add: example_defs)
  show ?thesis
    using h useSelectedAgents_catalog_order[of exampleState]
    by (simp add: a exampleState_selected defaultAgents_def)
qed

subsection \<open>Resetting the conversation\<close>

text \<open>
  Claim C7. From any state, \<^verbatim>\<open>resetConversation()\<close> gives a state whose message list is
  empty, whose conversation status is \<^verbatim>\<open>idle\<close>, whose turn counter is 0 and whose
  processing flag is false.
\<close>

theorem resetConversation_clears:
  "messages (resetConversation s) = []
   \<and> conversationStatus (resetConversation s) = ''idle''
   \<and> currentTurn (resetConversation s) = 0
   \<and> isProcessing (resetConversation s) = False"
  by (simp add: resetConversation_def)

text \<open>
  Claim C10. \<^verbatim>\<open>resetConversation()\<close> changes nothing outside the conversation lifecycle:
  the API settings, the agent catalog, the selected agent ids, the strategy catalog, the
  selected strategy, the conversations, the current conversation and both sidebar flags
  are the same before and after.
\<close>

theorem resetConversation_frame:
  "apiSettings (resetConversation s) = apiSettings s
   \<and> agents (resetConversation s) = agents s
   \<and> selectedAgentIds (resetConversation s) = selectedAgentIds s
   \<and> strategies (resetConversation s) = strategies s
   \<and> selectedStrategy (resetConversation s) = selectedStrategy s
   \<and> conversations (resetConversation s) = conversations s
   \<and> currentConversation (resetConversation s) = currentConversation s
   \<and> isLeftSidebarOpen (resetConversation s) = isLeftSidebarOpen s
   \<and> isRightSidebarOpen (resetConversation s) = isRightSidebarOpen s"
  by (simp add: resetConversation_def)

subsection \<open>Submitting a query\<close>

text \<open>The two halves of an invocation, as state updates.\<close>

lemma apply_writes_append: "apply_writes (ws @ ws') s = apply_writes ws' (apply_writes ws s)"
  by (simp add: apply_writes_def)

lemma begin_selected:
  assumes "selectedAgentIds s \<noteq> []"
  shows "submitQuery_begin query env s =
          ([ W_addMessage (userMessage query env),
             W_set_processing True ''active'' (currentTurn s + 1),
             W_addMessage (thinkingMessage env) ],
           Awaiting (backendRequest query s) (msg_id (thinkingMessage env)))"
  using assms by (simp add: submitQuery_begin_def)

lemma writes_selected:
  assumes "selectedAgentIds s \<noteq> []"
  shows "submitQuery_writes backend query env env' s =
          fst (submitQuery_begin query env s)
          @ submitQuery_resume (msg_id (thinkingMessage env)) env' (backend (backendRequest query s))"
  using assms by (simp add: submitQuery_writes_def begin_selected)

lemma messages_begin:
  assumes "selectedAgentIds s \<noteq> []"
  shows "apply_writes (fst (submitQuery_begin query env s)) s =
         s\<lparr>messages := messages s @ [userMessage query env, thinkingMessage env],
           isProcessing := True, conversationStatus := ''active'',
           currentTurn := currentTurn s + 1\<rparr>"
  using assms by (simp add: begin_selected apply_writes_def addMessage_def)

lemma resume_success:
  assumes "success response"
  shows "apply_writes (submitQuery_resume tid env' (Resolved response)) s =
         s\<lparr>messages := filter (\<lambda>m. msg_id m \<noteq> tid) (messages s) @ resp_messages response,
           isProcessing := False\<rparr>"
  using assms by (simp add: submitQuery_resume_def apply_writes_def addMessages_def)

lemma resume_signaled:
  assumes "\<not> success response"
  shows "apply_writes (submitQuery_resume tid env' (Resolved response)) s =
         s\<lparr>messages := filter (\<lambda>m. msg_id m \<noteq> tid) (messages s)
                         @ [errorMessage (js_or (error response) ''An unknown error occurred'') env'],
           conversationStatus := ''error'', isProcessing := False\<rparr>"
  using assms by (simp add: submitQuery_resume_def apply_writes_def addMessage_def)

lemma resume_rejected:
  "apply_writes (submitQuery_resume tid env' (Rejected e)) s =
         s\<lparr>messages := filter (\<lambda>m. msg_id m \<noteq> tid) (messages s)
                         @ [errorMessage (''Error: '' @ thrownText e) env'],
           conversationStatus := ''error'', isProcessing := False\<rparr>"
  by (simp add: submitQuery_resume_def apply_writes_def addMessage_def)

lemma submitQuery_selected:
  assumes "selectedAgentIds s \<noteq> []"
  shows "submitQuery backend query env env' s =
         apply_writes (submitQuery_resume (msg_id (thinkingMessage env)) env' (backend (backendRequest query s)))
           (apply_writes (fst (submitQuery_begin query env s)) s)"
  using assms by (simp add: submitQuery_def writes_selected apply_writes_append)

text \<open>
  Claim C2. When no agent is selected, \<^verbatim>\<open>submitQuery(text)\<close>, for any text, adds exactly one
  message, of role \<^verbatim>\<open>system\<close> and type \<^verbatim>\<open>error\<close>, and returns: the backend is not
  called, and the processing flag, the conversation status and the turn counter are what
  they were. Nothing else of the state changes either.
\<close>

theorem submitQuery_no_agents:
  assumes "selectedAgentIds s = []"
  shows "submitQuery_begin query env s = ([W_addMessage (noAgentsMessage env)], Returned)
       \<and> submitQuery backend query env env' s = s\<lparr>messages := messages s @ [noAgentsMessage env]\<rparr>
       \<and> role (noAgentsMessage env) = ''system''
       \<and> msg_type (noAgentsMessage env) = Some ''error''
       \<and> isProcessing (submitQuery backend query env env' s) = isProcessing s
       \<and> conversationStatus (submitQuery backend query env env' s) = conversationStatus s
       \<and> currentTurn (submitQuery backend query env env' s) = currentTurn s"
  using assms
  by (simp add: submitQuery_def submitQuery_writes_def submitQuery_begin_def apply_writes_def
        addMessage_def noAgentsMessage_def)

text \<open>The empty query on the initial state, where nothing is selected.\<close>

theorem submitQuery_no_agents_witness:
  "selectedAgentIds (initialState None None) = []
   \<and> length (messages (submitQuery timeoutBackend '''' exampleSubmitEnv exampleSettleEnv
        (initialState None None))) = 1
   \<and> isProcessing (submitQuery timeoutBackend '''' exampleSubmitEnv exampleSettleEnv
        (initialState None None)) = False
   \<and> currentTurn (submitQuery timeoutBackend '''' exampleSubmitEnv exampleSettleEnv
        (initialState None None)) = 0"
proof -
  have h: "selectedAgentIds (initialState None None) = []"
    by (simp add: initialState_def)
  show ?thesis
    using h submitQuery_no_agents[of "initialState None None" "''''" exampleSubmitEnv timeoutBackend
        exampleSettleEnv, OF h]
    by (simp add: initialState_def)
qed

text \<open>
  Claim C1. With at least one agent selected and a backend that answers with a
  success-flagged response: before the backend is called the log gains a user message
  whose content is the query, then the thinking placeholder. After the backend has
  answered, the log is the log from before the answer without the messages that carry the
  placeholder's id, followed by the returned messages in their order; the placeholder is
  not in the part that was kept, and when no returned message carries its id, no message
  of the log does; the turn counter is one more than before the call; the conversation
  status is \<^verbatim>\<open>active\<close>.
\<close>

theorem submitQuery_success:
  assumes "selectedAgentIds s \<noteq> []"
    and "backend (backendRequest query s) = Resolved response"
    and "success response"
  shows "snd (submitQuery_begin query env s) = Awaiting (backendRequest query s) (msg_id (thinkingMessage env))
    \<and> messages (apply_writes (fst (submitQuery_begin query env s)) s)
        = messages s @ [userMessage query env, thinkingMessage env]
    \<and> content (userMessage query env) = query
    \<and> role (userMessage query env) = ''user''
    \<and> msg_type (thinkingMessage env) = Some ''thinking''
    \<and> messages (submitQuery backend query env env' s)
        = filter (\<lambda>m. msg_id m \<noteq> msg_id (thinkingMessage env))
            (messages s @ [userMessage query env, thinkingMessage env])
          @ resp_messages response
    \<and> thinkingMessage env \<notin> set (filter (\<lambda>m. msg_id m \<noteq> msg_id (thinkingMessage env))
            (messages s @ [userMessage query env, thinkingMessage env]))
    \<and> ((\<forall>m \<in> set (resp_messages response). msg_id m \<noteq> msg_id (thinkingMessage env)) \<longrightarrow>
         (\<forall>m \<in> set (messages (submitQuery backend query env env' s)).
            msg_id m \<noteq> msg_id (thinkingMessage env)))
    \<and> currentTurn (submitQuery backend query env env' s) = currentTurn s + 1
    \<and> conversationStatus (submitQuery backend query env env' s) = ''active''"
proof -
  have mid: "apply_writes (fst (submitQuery_begin query env s)) s =
         s\<lparr>messages := messages s @ [userMessage query env, thinkingMessage env],
           isProcessing := True, conversationStatus := ''active'',
           currentTurn := currentTurn s + 1\<rparr>"
    using assms(1) by (rule messages_begin)
  have fin: "submitQuery backend query env env' s =
      (apply_writes (fst (submitQuery_begin query env s)) s)
        \<lparr>messages := filter (\<lambda>m. msg_id m \<noteq> msg_id (thinkingMessage env))
            (messages (apply_writes (fst (submitQuery_begin query env s)) s)) @ resp_messages response,
           isProcessing := False\<rparr>"
    by (simp only: submitQuery_selected[OF assms(1)] assms(2) resume_success[OF assms(3)])
  show ?thesis
    unfolding fin unfolding mid using assms(1)
    by (auto simp: begin_selected userMessage_def thinkingMessage_def)
qed

text \<open>Two agents selected, and a backend that returns two replies.\<close>

theorem submitQuery_success_witness:
  "selectedAgentIds exampleState \<noteq> []
   \<and> replyingBackend (backendRequest ''hello'' exampleState)
       = Resolved \<lparr> success = True, resp_messages = exampleReplies, error = None \<rparr>
   \<and> messages (submitQuery replyingBackend ''hello'' exampleSubmitEnv exampleSettleEnv exampleState)
       = userMessage ''hello'' exampleSubmitEnv # exampleReplies
   \<and> currentTurn (submitQuery replyingBackend ''hello'' exampleSubmitEnv exampleSettleEnv exampleState) = 1
   \<and> conversationStatus (submitQuery replyingBackend ''hello'' exampleSubmitEnv exampleSettleEnv exampleState)
       = ''active''"
proof -
  have h1: "selectedAgentIds exampleState \<noteq> []"
    by (simp add: exampleState_selected)
  have h2: "replyingBackend (backendRequest ''hello'' exampleState)
       = Resolved \<lparr> success = True, resp_messages = exampleReplies, error = None \<rparr>"
    by (simp add: replyingBackend_def)
  have h3: "success \<lparr> success = True, resp_messages = exampleReplies, error = None \<rparr>"
    by simp
  have m: "messages exampleState = []" "currentTurn exampleState = 0"
    by (simp_all add: example_defs)
  show ?thesis
    using h1 h2 submitQuery_success[of exampleState replyingBackend "''hello''"
        "\<lparr> success = True, resp_messages = exampleReplies, error = None \<rparr>"
        exampleSubmitEnv exampleSettleEnv, OF h1 h2 h3]
    by (simp add: m userMessage_def thinkingMessage_def exampleSubmitEnv_def)
qed

text \<open>
  Claim C4, as the claim states it, fails on a response that is flagged unsuccessful and
  carries the empty string as its error text: the text is present, and the content of the
  system message is the fallback, since \<^verbatim>\<open>response.error || "..."\<close> takes the empty
  string for false.
\<close>

theorem empty_error_text_counterexample:
  "emptyErrorBackend (backendRequest ''hello'' exampleState)
     = Resolved \<lparr> success = False, resp_messages = [], error = Some '''' \<rparr>
   \<and> content (last (messages
        (submitQuery emptyErrorBackend ''hello'' exampleSubmitEnv exampleSettleEnv exampleState)))
       = ''An unknown error occurred''
   \<and> content (last (messages
        (submitQuery emptyErrorBackend ''hello'' exampleSubmitEnv exampleSettleEnv exampleState)))
       \<noteq> ''''"
  by (simp add: submitQuery_selected exampleState_selected emptyErrorBackend_def resume_signaled
        js_or_def errorMessage_def)

text \<open>
  Claim C4, amended. With at least one agent selected and a backend call that fails, by a
  response flagged unsuccessful or by a rejection: the messages with the placeholder's id
  are removed and one message is appended, of role \<^verbatim>\<open>system\<close> and type \<^verbatim>\<open>error\<close>.
  Its content is the response's error text when that text is present and not empty, and
  \<^verbatim>\<open>An unknown error occurred\<close> when it is absent or empty; it is \<^verbatim>\<open>Error: \<close>
  followed by the message of the thrown \<^verbatim>\<open>Error\<close>, and \<^verbatim>\<open>Error: Unknown error occurred\<close>
  when the thrown value is not an \<^verbatim>\<open>Error\<close>. The conversation status is \<^verbatim>\<open>error\<close>.
\<close>

theorem submitQuery_failure:
  assumes "selectedAgentIds s \<noteq> []"
    and "backend (backendRequest query s) = out"
    and "failed out"
  shows "messages (submitQuery backend query env env' s)
        = filter (\<lambda>m. msg_id m \<noteq> msg_id (thinkingMessage env))
            (messages s @ [userMessage query env, thinkingMessage env])
          @ [last (messages (submitQuery backend query env env' s))]
    \<and> thinkingMessage env \<notin> set (filter (\<lambda>m. msg_id m \<noteq> msg_id (thinkingMessage env))
            (messages s @ [userMessage query env, thinkingMessage env]))
    \<and> role (last (messages (submitQuery backend query env env' s))) = ''system''
    \<and> msg_type (last (messages (submitQuery backend query env env' s))) = Some ''error''
    \<and> (\<forall>r t. out = Resolved r \<and> error r = Some t \<and> t \<noteq> [] \<longrightarrow>
          content (last (messages (submitQuery backend query env env' s))) = t)
    \<and> (\<forall>r. out = Resolved r \<and> (error r = None \<or> error r = Some []) \<longrightarrow>
          content (last (messages (submitQuery backend query env env' s))) = ''An unknown error occurred'')
    \<and> (\<forall>t. out = Rejected (ErrorInstance t) \<longrightarrow>
          content (last (messages (submitQuery backend query env env' s))) = ''Error: '' @ t)
    \<and> (out = Rejected NotAnError \<longrightarrow>
          content (last (messages (submitQuery backend query env env' s))) = ''Error: Unknown error occurred'')
    \<and> conversationStatus (submitQuery backend query env env' s) = ''error''"
proof -
  have mid: "apply_writes (fst (submitQuery_begin query env s)) s =
         s\<lparr>messages := messages s @ [userMessage query env, thinkingMessage env],
           isProcessing := True, conversationStatus := ''active'',
           currentTurn := currentTurn s + 1\<rparr>"
    using assms(1) by (rule messages_begin)
  show ?thesis
  proof (cases out)
    case (Resolved r)
    with assms(3) have nr: "\<not> success r" by simp
    have fin: "submitQuery backend query env env' s =
      (apply_writes (fst (submitQuery_begin query env s)) s)
        \<lparr>messages := filter (\<lambda>m. msg_id m \<noteq> msg_id (thinkingMessage env))
            (messages (apply_writes (fst (submitQuery_begin query env s)) s))
            @ [errorMessage (js_or (error r) ''An unknown error occurred'') env'],
          conversationStatus := ''error'', isProcessing := False\<rparr>"
      by (simp only: submitQuery_selected[OF assms(1)] assms(2) Resolved resume_signaled[OF nr])
    show ?thesis
      unfolding fin unfolding mid using Resolved
      by (auto simp: errorMessage_def js_or_def)
  next
    case (Rejected e)
    have fin: "submitQuery backend query env env' s =
      (apply_writes (fst (submitQuery_begin query env s)) s)
        \<lparr>messages := filter (\<lambda>m. msg_id m \<noteq> msg_id (thinkingMessage env))
            (messages (apply_writes (fst (submitQuery_begin query env s)) s))
            @ [errorMessage (''Error: '' @ thrownText e) env'],
          conversationStatus := ''error'', isProcessing := False\<rparr>"
      by (simp only: submitQuery_selected[OF assms(1)] assms(2) Rejected resume_rejected)
    show ?thesis
      unfolding fin unfolding mid using Rejected
      by (auto simp: errorMessage_def thrownText_def)
  qed
qed

text \<open>A rejection with the message \<^verbatim>\<open>timeout\<close>.\<close>

theorem submitQuery_failure_witness:
  "selectedAgentIds exampleState \<noteq> []
   \<and> failed (timeoutBackend (backendRequest ''hello'' exampleState))
   \<and> content (last (messages (submitQuery timeoutBackend ''hello'' exampleSubmitEnv exampleSettleEnv exampleState)))
       = ''Error: timeout''
   \<and> conversationStatus (submitQuery timeoutBackend ''hello'' exampleSubmitEnv exampleSettleEnv exampleState)
       = ''error''"
proof -
  have h1: "selectedAgentIds exampleState \<noteq> []"
    by (simp add: exampleState_selected)
  have h2: "timeoutBackend (backendRequest ''hello'' exampleState) = Rejected (ErrorInstance ''timeout'')"
    by (simp add: timeoutBackend_def)
  have h3: "failed (Rejected (ErrorInstance ''timeout''))"
    by simp
  show ?thesis
    using h1 h3 submitQuery_failure[of exampleState timeoutBackend "''hello''" "Rejected (ErrorInstance ''timeout'')"
        exampleSubmitEnv exampleSettleEnv, OF h1 h2 h3]
    by (simp add: timeoutBackend_def)
qed

text \<open>
  Claim C3. With at least one agent selected, whatever the backend call does (a
  success-flagged response, a failure-flagged response, a rejection), the processing flag
  is false when \<^verbatim>\<open>submitQuery\<close> has settled, and the last write of the invocation is the one
  that sets it to false. The flag is false as well when the part after the \<^verbatim>\<open>await\<close>
  runs on a state that other actions have changed in the meantime.
\<close>

theorem submitQuery_finally:
  assumes "selectedAgentIds s \<noteq> []"
  shows "isProcessing (submitQuery backend query env env' s) = False
       \<and> last (submitQuery_writes backend query env env' s) = W_set_isProcessing False
       \<and> isProcessing (apply_writes (submitQuery_resume thinkingId env' outcome) s') = False"
proof -
  have "isProcessing (apply_writes (submitQuery_resume tid env' out) t) = False" for tid out t
    by (cases out) (simp_all add: submitQuery_resume_def apply_writes_def addMessage_def addMessages_def)
  moreover have "last (ws @ submitQuery_resume tid env' out) = W_set_isProcessing False" for ws tid out
    by (simp add: submitQuery_resume_def)
  ultimately show ?thesis
    using assms by (simp add: submitQuery_selected writes_selected)
qed

text \<open>The three outcomes on the state with two agents selected.\<close>

theorem submitQuery_finally_witness:
  "selectedAgentIds exampleState \<noteq> []
   \<and> isProcessing (submitQuery replyingBackend ''hello'' exampleSubmitEnv exampleSettleEnv exampleState) = False
   \<and> isProcessing (submitQuery refusingBackend ''hello'' exampleSubmitEnv exampleSettleEnv exampleState) = False
   \<and> isProcessing (submitQuery timeoutBackend ''hello'' exampleSubmitEnv exampleSettleEnv exampleState) = False
   \<and> last (submitQuery_writes timeoutBackend ''hello'' exampleSubmitEnv exampleSettleEnv exampleState)
       = W_set_isProcessing False"
proof -
  have h1: "selectedAgentIds exampleState \<noteq> []"
    by (simp add: exampleState_selected)
  show ?thesis
    using h1 submitQuery_finally[of exampleState replyingBackend "''hello''" exampleSubmitEnv exampleSettleEnv, OF h1]
      submitQuery_finally[of exampleState refusingBackend "''hello''" exampleSubmitEnv exampleSettleEnv, OF h1]
      submitQuery_finally[of exampleState timeoutBackend "''hello''" exampleSubmitEnv exampleSettleEnv, OF h1]
    by simp
qed

subsection \<open>Runs of the store\<close>

text \<open>No write of \<^verbatim>\<open>submitQuery\<close> touches the catalogs or the selection.\<close>

lemma apply_write_selection:
  "agents (apply_write w s) = agents s \<and> strategies (apply_write w s) = strategies s
   \<and> selectedAgentIds (apply_write w s) = selectedAgentIds s
   \<and> selectedStrategy (apply_write w s) = selectedStrategy s"
  by (cases w) (simp_all add: addMessage_def addMessages_def)

lemma apply_writes_selection:
  "agents (apply_writes ws s) = agents s \<and> strategies (apply_writes ws s) = strategies s
   \<and> selectedAgentIds (apply_writes ws s) = selectedAgentIds s
   \<and> selectedStrategy (apply_writes ws s) = selectedStrategy s"
  unfolding apply_writes_def
  by (induction ws arbitrary: s) (simp_all add: apply_write_selection)

lemma selection_in_catalog_cong:
  assumes "agents t = agents s" "strategies t = strategies s"
    "selectedAgentIds t = selectedAgentIds s" "selectedStrategy t = selectedStrategy s"
  shows "catalog_inv t = catalog_inv s"
  using assms by (simp add: catalog_inv_def selection_in_catalog_def agentIds_def strategyIds_def)

lemma step_catalog_inv:
  assumes "names_catalog_ids a" and "catalog_inv (store c)"
  shows "catalog_inv (store (step a c))"
proof (cases a)
  case (Call_selectAgent i)
  with assms show ?thesis
    by (auto simp: catalog_inv_def selection_in_catalog_def agentIds_def strategyIds_def
        selectAgent_def js_includes_set)
next
  case (Call_unselectAgent i)
  with assms show ?thesis
    by (auto simp: catalog_inv_def selection_in_catalog_def agentIds_def strategyIds_def
        unselectAgent_def)
next
  case (Call_setSelectedStrategy i)
  with assms show ?thesis
    by (auto simp: catalog_inv_def selection_in_catalog_def agentIds_def strategyIds_def
        setSelectedStrategy_def js_includes_set)
next
  case (Call_submitQuery q env)
  obtain ws susp where b: "submitQuery_begin q env (store c) = (ws, susp)"
    by (cases "submitQuery_begin q env (store c)")
  have "catalog_inv (apply_writes ws (store c)) = catalog_inv (store c)"
    by (rule selection_in_catalog_cong) (simp_all add: apply_writes_selection)
  with assms Call_submitQuery b show ?thesis
    by (cases susp) simp_all
next
  case (Backend_settles k out env)
  have "catalog_inv (apply_writes ws (store c)) = catalog_inv (store c)" for ws
    by (rule selection_in_catalog_cong) (simp_all add: apply_writes_selection)
  with assms Backend_settles show ?thesis
    by simp
qed (use assms in \<open>auto simp: catalog_inv_def selection_in_catalog_def agentIds_def strategyIds_def
      updateApiSettings_def addMessage_def addMessages_def setCurrentConversation_def
      toggleLeftSidebar_def toggleRightSidebar_def setConversationStatus_def resetConversation_def\<close>)

lemma run_catalog_inv:
  assumes "\<forall>a \<in> set acts. names_catalog_ids a" and "catalog_inv (store c)"
  shows "catalog_inv (store (run acts c))"
  using assms unfolding run_def
proof (induction acts arbitrary: c)
  case Nil
  then show ?case by simp
next
  case (Cons a acts)
  then show ?case by (simp add: step_catalog_inv)
qed

lemma initial_catalog_inv: "catalog_inv (store (initialConfig envUrl envKey))"
  by (simp add: catalog_inv_def selection_in_catalog_def agentIds_def strategyIds_def
      initialConfig_def initialState_def defaultStrategies_def)

text \<open>
  Claim C6, as the claim states it, fails: \<^verbatim>\<open>selectAgent\<close> and \<^verbatim>\<open>setSelectedStrategy\<close>
  take any id, so one call with an id of no catalog entry leaves the initial state with a
  selection outside the catalog.
\<close>

theorem unvalidated_selection_counterexample:
  "selectedAgentIds (store (run [Call_selectAgent ''ghost''] (initialConfig None None))) = [''ghost'']
   \<and> ''ghost'' \<notin> agentIds (store (run [Call_selectAgent ''ghost''] (initialConfig None None)))
   \<and> selectedStrategy (store (run [Call_setSelectedStrategy ''ghost''] (initialConfig None None))) = ''ghost''
   \<and> ''ghost'' \<notin> strategyIds (store (run [Call_setSelectedStrategy ''ghost''] (initialConfig None None)))"
  by (simp add: run_def initialConfig_def initialState_def selectAgent_def setSelectedStrategy_def
      agentIds_def strategyIds_def defaultAgents_def defaultStrategies_def)

text \<open>
  Claim C6, amended. In every state reached from the initial state by the store's
  operations, with \<^verbatim>\<open>selectAgent\<close> called only on ids of the agent catalog and
  \<^verbatim>\<open>setSelectedStrategy\<close> only on ids of the strategy catalog, every selected agent id is
  the id of a catalog agent and the selected strategy is the id of a catalog strategy.
\<close>

theorem reachable_selection_in_catalog:
  assumes "\<forall>a \<in> set acts. names_catalog_ids a"
  shows "selection_in_catalog (store (run acts (initialConfig envUrl envKey)))"
  using run_catalog_inv[OF assms initial_catalog_inv] by (simp add: catalog_inv_def)

text \<open>
  A run that selects, submits, selects again while the backend is busy, sees the backend
  time out, unselects and resets.
\<close>

theorem reachable_selection_in_catalog_witness:
  "list_all names_catalog_ids exampleRun
   \<and> selection_in_catalog (store (run exampleRun (initialConfig None None)))"
proof -
  have h: "\<forall>a \<in> set exampleRun. names_catalog_ids a"
    by (simp add: exampleRun_def defaultAgents_def defaultStrategies_def)
  show ?thesis
    using h reachable_selection_in_catalog[OF h, of None None]
    by (simp add: list_all_iff)
qed

text \<open>
  Whatever the ids, a reachable selection holds at most four of them and none twice.
\<close>

lemma step_sel_ok:
  assumes "sel_ok (store c)"
  shows "sel_ok (store (step a c))"
proof (cases a)
  case (Call_selectAgent i)
  with assms show ?thesis
    by (auto simp: sel_ok_def selectAgent_def js_includes_set)
next
  case (Call_unselectAgent i)
  have "length (filter (\<lambda>x. x \<noteq> i) (selectedAgentIds (store c))) \<le> 4"
    using assms length_filter_le[of "\<lambda>x. x \<noteq> i" "selectedAgentIds (store c)"]
    unfolding sel_ok_def by linarith
  with assms Call_unselectAgent show ?thesis
    by (auto simp: sel_ok_def unselectAgent_def)
next
  case (Call_submitQuery q env)
  obtain ws susp where b: "submitQuery_begin q env (store c) = (ws, susp)"
    by (cases "submitQuery_begin q env (store c)")
  with assms Call_submitQuery b show ?thesis
    by (cases susp) (simp_all add: sel_ok_def apply_writes_selection)
next
  case (Backend_settles k out env)
  with assms show ?thesis
    by (simp add: sel_ok_def apply_writes_selection)
qed (use assms in \<open>simp_all add: sel_ok_def
      updateApiSettings_def addMessage_def addMessages_def setCurrentConversation_def setSelectedStrategy_def
      toggleLeftSidebar_def toggleRightSidebar_def setConversationStatus_def resetConversation_def\<close>)

lemma reachable_selection_bounded:
  "length (selectedAgentIds (store (run acts (initialConfig envUrl envKey)))) \<le> 4
   \<and> distinct (selectedAgentIds (store (run acts (initialConfig envUrl envKey))))"
proof -
  have "sel_ok (store c) \<Longrightarrow> sel_ok (store (fold step acts c))" for c
    by (induction acts arbitrary: c) (simp_all add: step_sel_ok)
  moreover have "sel_ok (store (initialConfig envUrl envKey))"
    by (simp add: sel_ok_def initialConfig_def initialState_def)
  ultimately show ?thesis
    by (simp add: run_def sel_ok_def)
qed

end
